theory Spec2Isabelle
  imports Main
begin

section \<open>Frames\<close>

text \<open>
  The frame classes named by the modelled sources. \<open>frames.py\<close> is not part of the
  sources at hand, so each class the code tests with \<open>isinstance\<close> is a constructor, and
  every other frame class is \<open>OtherFrame\<close> with an identifying number. The argument of
  \<open>StartFrame\<close> is its \<open>audio_in_sample_rate\<close>; the argument of the two user speaking frames
  is their \<open>emulated\<close> flag.
\<close>

type_synonym audio = "nat list"

datatype FrameDirection = DOWNSTREAM | UPSTREAM

datatype Frame =
    StartFrame int
  | EndFrame
  | CancelFrame
  | BotInterruptionFrame
  | EmulateUserStartedSpeakingFrame
  | EmulateUserStoppedSpeakingFrame
  | StartInterruptionFrame
  | StopInterruptionFrame
  | UserStartedSpeakingFrame bool
  | UserStoppedSpeakingFrame bool
  | UserEndOfTurnFrame
  | VADParamsUpdateFrame nat
  | FilterUpdateSettingsFrame nat
  | InputAudioRawFrame audio
  | FunctionCallInProgressFrame nat
  | FunctionCallResultFrame nat
  | OtherFrame nat

text \<open>
  Which classes derive from \<open>SystemFrame\<close> is declared in \<open>frames.py\<close>. The processors
  below take the test \<open>isinstance(frame, SystemFrame)\<close> as a parameter \<open>sysf\<close>, so every
  result holds for any class hierarchy.
\<close>

type_synonym hierarchy = "Frame \<Rightarrow> bool"

text \<open>
  Modelled from the spec: the class hierarchy of the missing \<open>frames.py\<close>, used to run the
  processors on concrete inputs. System frames are Start, Cancel, StartInterruption,
  StopInterruption, the interruption and emulated-speech markers and the user speaking
  frames. \<open>EndFrame\<close> and the parameter-update frames are taken as control frames, where
  the comments of \<open>BaseInputTransport.process_frame\<close> place them.
\<close>

fun spec_SystemFrame :: hierarchy where
  "spec_SystemFrame (StartFrame r) = True"
| "spec_SystemFrame CancelFrame = True"
| "spec_SystemFrame BotInterruptionFrame = True"
| "spec_SystemFrame EmulateUserStartedSpeakingFrame = True"
| "spec_SystemFrame EmulateUserStoppedSpeakingFrame = True"
| "spec_SystemFrame StartInterruptionFrame = True"
| "spec_SystemFrame StopInterruptionFrame = True"
| "spec_SystemFrame (UserStartedSpeakingFrame e) = True"
| "spec_SystemFrame (UserStoppedSpeakingFrame e) = True"
| "spec_SystemFrame f = False"

fun is_StartFrame :: "Frame \<Rightarrow> bool" where
  "is_StartFrame (StartFrame r) = True"
| "is_StartFrame f = False"

fun is_FunctionCallFrame :: "Frame \<Rightarrow> bool" where
  "is_FunctionCallFrame (FunctionCallInProgressFrame n) = True"
| "is_FunctionCallFrame (FunctionCallResultFrame n) = True"
| "is_FunctionCallFrame f = False"

section \<open>OutputGate (22b-natural-conversation-proposal.py)\<close>

text \<open>
  The fields of \<open>OutputGate\<close>. \<open>gate_task\<close> is whether \<open>self._gate_task\<close> holds a task
  (\<open>create_task\<close> sets it, \<open>cancel_task\<close> followed by \<open>None\<close> clears it). Every operation
  returns the new gate together with the frames it gave to \<open>push_frame\<close>, in order.
\<close>

record OutputGate =
  gate_open :: bool
  frames_buffer :: "(Frame \<times> FrameDirection) list"
  gate_task :: bool

definition OutputGate_init :: "bool \<Rightarrow> OutputGate" where
  "OutputGate_init start_open =
     \<lparr>gate_open = start_open, frames_buffer = [], gate_task = False\<rparr>"

definition close_gate :: "OutputGate \<Rightarrow> OutputGate" where
  "close_gate g = g\<lparr>gate_open := False\<rparr>"

definition open_gate :: "OutputGate \<Rightarrow> OutputGate" where
  "open_gate g = g\<lparr>gate_open := True\<rparr>"

definition gate_start :: "OutputGate \<Rightarrow> OutputGate" where
  "gate_start g =
     (let g1 = g\<lparr>frames_buffer := []\<rparr>
      in if \<not> gate_task g1 then g1\<lparr>gate_task := True\<rparr> else g1)"

definition gate_stop :: "OutputGate \<Rightarrow> OutputGate" where
  "gate_stop g = (if gate_task g then g\<lparr>gate_task := False\<rparr> else g)"

definition gate_process_frame ::
  "hierarchy \<Rightarrow> OutputGate \<Rightarrow> Frame \<Rightarrow> FrameDirection
     \<Rightarrow> OutputGate \<times> (Frame \<times> FrameDirection) list" where
  "gate_process_frame sysf g frame direction =
     (if sysf frame then
        (let g1 = (if is_StartFrame frame then gate_start g else g);
             g2 = (if frame = EndFrame \<or> frame = CancelFrame then gate_stop g1 else g1);
             g3 = (if frame = StartInterruptionFrame
                   then close_gate (g2\<lparr>frames_buffer := []\<rparr>) else g2)
         in (g3, [(frame, direction)]))
      else if is_FunctionCallFrame frame then (g, [(frame, direction)])
      else if direction \<noteq> DOWNSTREAM then (g, [(frame, direction)])
      else if gate_open g then (g, [(frame, direction)])
      else (g\<lparr>frames_buffer := frames_buffer g @ [(frame, direction)]\<rparr>, []))"

text \<open>
  One turn of the loop of \<open>_gate_task_handler\<close>, run when \<open>notifier.wait()\<close> returns: the
  gate opens, the buffered frames are pushed in list order and the buffer is emptied.
  The turn is taken as one step; no frame is processed in the middle of the flush.
\<close>

definition gate_task_wake ::
  "OutputGate \<Rightarrow> OutputGate \<times> (Frame \<times> FrameDirection) list" where
  "gate_task_wake g =
     (let g1 = open_gate g
      in (g1\<lparr>frames_buffer := []\<rparr>, frames_buffer g1))"

text \<open>A notifier signal reaches the gate only while its task exists.\<close>

definition notifier_fire ::
  "OutputGate \<Rightarrow> OutputGate \<times> (Frame \<times> FrameDirection) list" where
  "notifier_fire g = (if gate_task g then gate_task_wake g else (g, []))"

text \<open>Processing a list of frames one after the other, all in one direction.\<close>

fun gate_process_frames ::
  "hierarchy \<Rightarrow> OutputGate \<Rightarrow> Frame list \<Rightarrow> FrameDirection
     \<Rightarrow> OutputGate \<times> (Frame \<times> FrameDirection) list" where
  "gate_process_frames sysf g [] d = (g, [])"
| "gate_process_frames sysf g (f # fs) d =
     (let (g1, out1) = gate_process_frame sysf g f d;
          (g2, out2) = gate_process_frames sysf g1 fs d
      in (g2, out1 @ out2))"

section \<open>BaseInputTransport (transports/base_input.py)\<close>

datatype VADState = QUIET | STARTING | SPEAKING | STOPPING

datatype EndOfTurnState = COMPLETE | INCOMPLETE

text \<open>
  The fields of \<open>TransportParams\<close> that the transport reads. An analyzer or filter field
  is whether the object is set; \<open>audio_in_sample_rate\<close> is an optional integer.
\<close>

record TransportParams =
  audio_in_sample_rate :: "int option"
  audio_in_enabled :: bool
  audio_in_filter :: bool
  audio_out_10ms_chunks :: int
  vad_enabled :: bool
  vad_analyzer :: bool
  vad_audio_passthrough :: bool
  end_of_turn_analyzer :: bool

text \<open>
  What the transport does to the outside, in the order it does it: frames given to
  \<open>push_frame\<close>, calls on the analyzers and on the filter, jobs handed to
  \<open>self._executor\<close>, and the calls inherited from \<open>FrameProcessor\<close>.
\<close>

datatype job = VadAnalyzeAudio audio | EndOfTurnAnalyzeAudio audio bool

datatype Effect =
    PushFrame Frame FrameDirection
  | SuperProcessFrame Frame FrameDirection
  | VadSetSampleRate int
  | VadSetParams nat
  | EndOfTurnSetSampleRate int
  | EndOfTurnSetChunkSizeMs int
  | FilterStart int
  | FilterStop
  | FilterProcessFrame Frame
  | FilterAudio audio
  | RunInExecutor job
  | CreateQueue
  | CreateTask
  | CancelTask
  | StartInterruption
  | StopInterruption

text \<open>
  The fields of the transport. \<open>audio_task\<close> is whether \<open>self._audio_task\<close> holds a task;
  \<open>audio_in_queue\<close> is \<open>None\<close> until \<open>start\<close> creates the queue. \<open>interruptions_allowed\<close> is
  the property of that name of \<open>FrameProcessor\<close>, which this class only reads.
\<close>

record BaseInputTransport =
  params :: TransportParams
  input_sample_rate :: int
  executor_max_workers :: nat
  audio_task :: bool
  audio_in_queue :: "audio list option"
  interruptions_allowed :: bool

definition BaseInputTransport_init :: "TransportParams \<Rightarrow> bool \<Rightarrow> BaseInputTransport" where
  "BaseInputTransport_init p allowed =
     \<lparr>params = p, input_sample_rate = 0, executor_max_workers = 1, audio_task = False,
      audio_in_queue = None, interruptions_allowed = allowed\<rparr>"

text \<open>\<open>self._params.audio_in_sample_rate or frame.audio_in_sample_rate\<close>\<close>

definition start_sample_rate :: "TransportParams \<Rightarrow> int \<Rightarrow> int" where
  "start_sample_rate p frame_rate =
     (case audio_in_sample_rate p of
        None \<Rightarrow> frame_rate
      | Some r \<Rightarrow> if r \<noteq> 0 then r else frame_rate)"

definition transport_start :: "BaseInputTransport \<Rightarrow> int \<Rightarrow> BaseInputTransport \<times> Effect list" where
  "transport_start t frame_rate =
     (let p = params t;
          sr = start_sample_rate p frame_rate;
          t1 = t\<lparr>input_sample_rate := sr\<rparr>;
          e1 = (if vad_enabled p \<and> vad_analyzer p then [VadSetSampleRate sr] else []);
          e2 = (if end_of_turn_analyzer p
                then [EndOfTurnSetSampleRate sr,
                      EndOfTurnSetChunkSizeMs (audio_out_10ms_chunks p * 10)]
                else []);
          e3 = (if audio_in_filter p then [FilterStart sr] else [])
      in if \<not> audio_task t1 \<and> (audio_in_enabled p \<or> vad_enabled p)
         then (t1\<lparr>audio_in_queue := Some [], audio_task := True\<rparr>,
               e1 @ e2 @ e3 @ [CreateQueue, CreateTask])
         else (t1, e1 @ e2 @ e3))"

definition transport_stop :: "BaseInputTransport \<Rightarrow> BaseInputTransport \<times> Effect list" where
  "transport_stop t =
     (let p = params t;
          (t1, e1) = (if audio_task t \<and> (audio_in_enabled p \<or> vad_enabled p)
                      then (t\<lparr>audio_task := False\<rparr>, [CancelTask]) else (t, []));
          e2 = (if audio_in_filter p then [FilterStop] else [])
      in (t1, e1 @ e2))"

definition transport_cancel :: "BaseInputTransport \<Rightarrow> BaseInputTransport \<times> Effect list" where
  "transport_cancel t =
     (let p = params t
      in if audio_task t \<and> (audio_in_enabled p \<or> vad_enabled p)
         then (t\<lparr>audio_task := False\<rparr>, [CancelTask]) else (t, []))"

text \<open>Before \<open>start\<close> has created the queue, the attribute read in \<open>push_audio_frame\<close> fails.\<close>

datatype py_error = AttributeError

definition push_audio_frame :: "BaseInputTransport \<Rightarrow> audio \<Rightarrow> py_error + BaseInputTransport" where
  "push_audio_frame t a =
     (if audio_in_enabled (params t) \<or> vad_enabled (params t)
      then (case audio_in_queue t of
              None \<Rightarrow> Inl AttributeError
            | Some q \<Rightarrow> Inr (t\<lparr>audio_in_queue := Some (q @ [a])\<rparr>))
      else Inr t)"

definition handle_bot_interruption :: "BaseInputTransport \<Rightarrow> Effect list" where
  "handle_bot_interruption t =
     (if interruptions_allowed t
      then [StartInterruption, PushFrame StartInterruptionFrame DOWNSTREAM] else [])"

text \<open>\<open>push_frame(frame)\<close> without a direction pushes downstream.\<close>

fun handle_user_interruption :: "BaseInputTransport \<Rightarrow> Frame \<Rightarrow> Effect list" where
  "handle_user_interruption t (UserStartedSpeakingFrame e) =
     PushFrame (UserStartedSpeakingFrame e) DOWNSTREAM
       # (if interruptions_allowed t
          then [StartInterruption, PushFrame StartInterruptionFrame DOWNSTREAM] else [])"
| "handle_user_interruption t (UserStoppedSpeakingFrame e) =
     PushFrame (UserStoppedSpeakingFrame e) DOWNSTREAM
       # (if interruptions_allowed t
          then [StopInterruption, PushFrame StopInterruptionFrame DOWNSTREAM] else [])"
| "handle_user_interruption t UserEndOfTurnFrame = [PushFrame UserEndOfTurnFrame DOWNSTREAM]"
| "handle_user_interruption t f = []"

text \<open>
  The branches of \<open>process_frame\<close> below the test for \<open>SystemFrame\<close>: the control frames
  and the rest.
\<close>

fun transport_process_control ::
  "BaseInputTransport \<Rightarrow> Frame \<Rightarrow> FrameDirection \<Rightarrow> BaseInputTransport \<times> Effect list" where
  "transport_process_control t EndFrame d =
     (let (t1, es) = transport_stop t in (t1, PushFrame EndFrame d # es))"
| "transport_process_control t (VADParamsUpdateFrame n) d =
     (t, if vad_analyzer (params t) then [VadSetParams n] else [])"
| "transport_process_control t (FilterUpdateSettingsFrame n) d =
     (t, if audio_in_filter (params t)
         then [FilterProcessFrame (FilterUpdateSettingsFrame n)]
         else [PushFrame (FilterUpdateSettingsFrame n) d])"
| "transport_process_control t f d = (t, [PushFrame f d])"

fun transport_process_specific ::
  "hierarchy \<Rightarrow> BaseInputTransport \<Rightarrow> Frame \<Rightarrow> FrameDirection
     \<Rightarrow> BaseInputTransport \<times> Effect list" where
  "transport_process_specific sysf t (StartFrame r) d =
     (let (t1, es) = transport_start t r in (t1, PushFrame (StartFrame r) d # es))"
| "transport_process_specific sysf t CancelFrame d =
     (let (t1, es) = transport_cancel t in (t1, es @ [PushFrame CancelFrame d]))"
| "transport_process_specific sysf t BotInterruptionFrame d = (t, handle_bot_interruption t)"
| "transport_process_specific sysf t EmulateUserStartedSpeakingFrame d =
     (t, handle_user_interruption t (UserStartedSpeakingFrame True))"
| "transport_process_specific sysf t EmulateUserStoppedSpeakingFrame d =
     (t, handle_user_interruption t (UserStoppedSpeakingFrame True))"
| "transport_process_specific sysf t f d =
     (if sysf f then (t, [PushFrame f d]) else transport_process_control t f d)"

definition transport_process_frame ::
  "hierarchy \<Rightarrow> BaseInputTransport \<Rightarrow> Frame \<Rightarrow> FrameDirection
     \<Rightarrow> BaseInputTransport \<times> Effect list" where
  "transport_process_frame sysf t frame direction =
     (let (t1, es) = transport_process_specific sysf t frame direction
      in (t1, SuperProcessFrame frame direction # es))"

text \<open>
  The analyzers and the audio filter are objects outside the transport, with state of
  their own. What they return for one audio frame is part of the input of the loop:
  \<open>filter_answer\<close> is what \<open>audio_in_filter.filter\<close> returns, \<open>vad_answer\<close> what
  \<open>vad_analyzer.analyze_audio\<close> returns, \<open>eot_answer\<close> what
  \<open>end_of_turn_analyzer.analyze_audio\<close> returns for each value of \<open>is_speech\<close>.
\<close>

record audio_input =
  in_audio :: audio
  filter_answer :: audio
  vad_answer :: VADState
  eot_answer :: "bool \<Rightarrow> EndOfTurnState"

definition vad_analyze :: "BaseInputTransport \<Rightarrow> audio \<Rightarrow> VADState \<Rightarrow> VADState \<times> Effect list" where
  "vad_analyze t a answer =
     (if vad_analyzer (params t) then (answer, [RunInExecutor (VadAnalyzeAudio a)])
      else (QUIET, []))"

definition handle_vad ::
  "BaseInputTransport \<Rightarrow> audio \<Rightarrow> VADState \<Rightarrow> VADState \<Rightarrow> VADState \<times> Effect list" where
  "handle_vad t a answer vad_state =
     (let (new_vad_state, e0) = vad_analyze t a answer
      in if new_vad_state \<noteq> vad_state \<and> new_vad_state \<noteq> STARTING
            \<and> new_vad_state \<noteq> STOPPING
         then
           (let frame = (if new_vad_state = SPEAKING then Some (UserStartedSpeakingFrame False)
                         else if new_vad_state = QUIET then Some (UserStoppedSpeakingFrame False)
                         else None);
                e1 = (case frame of None \<Rightarrow> [] | Some f \<Rightarrow> handle_user_interruption t f)
            in (new_vad_state, e0 @ e1))
         else (vad_state, e0))"

definition end_of_turn_analyze ::
  "BaseInputTransport \<Rightarrow> audio \<Rightarrow> (bool \<Rightarrow> EndOfTurnState) \<Rightarrow> bool
     \<Rightarrow> EndOfTurnState \<times> Effect list" where
  "end_of_turn_analyze t a answer is_speech =
     (if end_of_turn_analyzer (params t)
      then (answer is_speech, [RunInExecutor (EndOfTurnAnalyzeAudio a is_speech)])
      else (INCOMPLETE, []))"

definition handle_end_of_turn ::
  "BaseInputTransport \<Rightarrow> audio \<Rightarrow> (bool \<Rightarrow> EndOfTurnState) \<Rightarrow> EndOfTurnState \<Rightarrow> bool
     \<Rightarrow> EndOfTurnState \<times> Effect list" where
  "handle_end_of_turn t a answer end_of_turn_state is_speech =
     (let (new_eot_state, e0) = end_of_turn_analyze t a answer is_speech
      in (new_eot_state,
          e0 @ (if new_eot_state \<noteq> end_of_turn_state
                then handle_user_interruption t UserEndOfTurnFrame else [])))"

text \<open>
  One turn of the loop of \<open>_audio_task_handler\<close>, for the frame taken from the queue.
  The loop state is the pair of tracked states \<open>(vad_state, end_of_turn_state)\<close>.
\<close>

definition audio_task_iteration ::
  "BaseInputTransport \<Rightarrow> VADState \<times> EndOfTurnState \<Rightarrow> audio_input
     \<Rightarrow> (VADState \<times> EndOfTurnState) \<times> Effect list" where
  "audio_task_iteration t st inp =
     (let p = params t;
          (a, e_filter) = (if audio_in_filter p
                           then (filter_answer inp, [FilterAudio (in_audio inp)])
                           else (in_audio inp, []));
          (vad_state, e_vad, audio_passthrough) =
             (if vad_enabled p
              then (let (v, e) = handle_vad t a (vad_answer inp) (fst st)
                    in (v, e, vad_audio_passthrough p))
              else (fst st, [], True));
          (end_of_turn_state, e_eot) =
             (if end_of_turn_analyzer p
              then handle_end_of_turn t a (eot_answer inp) (snd st)
                     (vad_state = SPEAKING \<or> vad_state = STARTING)
              else (snd st, []));
          e_push = (if audio_passthrough then [PushFrame (InputAudioRawFrame a) DOWNSTREAM]
                    else [])
      in ((vad_state, end_of_turn_state), e_filter @ e_vad @ e_eot @ e_push))"

fun audio_task_run ::
  "BaseInputTransport \<Rightarrow> VADState \<times> EndOfTurnState \<Rightarrow> audio_input list
     \<Rightarrow> (VADState \<times> EndOfTurnState) \<times> Effect list" where
  "audio_task_run t st [] = (st, [])"
| "audio_task_run t st (inp # inps) =
     (let (st1, e1) = audio_task_iteration t st inp;
          (st2, e2) = audio_task_run t st1 inps
      in (st2, e1 @ e2))"

definition audio_task_handler ::
  "BaseInputTransport \<Rightarrow> audio_input list \<Rightarrow> (VADState \<times> EndOfTurnState) \<times> Effect list" where
  "audio_task_handler t inps = audio_task_run t (QUIET, INCOMPLETE) inps"

fun pushed_frames :: "Effect list \<Rightarrow> (Frame \<times> FrameDirection) list" where
  "pushed_frames [] = []"
| "pushed_frames (PushFrame f d # es) = (f, d) # pushed_frames es"
| "pushed_frames (e # es) = pushed_frames es"

text \<open>The speaking-transition frames among the frames an effect list pushes.\<close>

fun is_speaking_transition :: "Frame \<Rightarrow> bool" where
  "is_speaking_transition (UserStartedSpeakingFrame e) = True"
| "is_speaking_transition (UserStoppedSpeakingFrame e) = True"
| "is_speaking_transition f = False"

definition speaking_frames :: "Effect list \<Rightarrow> (Frame \<times> FrameDirection) list" where
  "speaking_frames es = filter (\<lambda>(f, d). is_speaking_transition f) (pushed_frames es)"

text \<open>
  A transport for running the model on concrete inputs: audio input and VAD enabled,
  both analyzers set, no filter, interruptions allowed.
\<close>

definition example_params :: TransportParams where
  "example_params =
     \<lparr>audio_in_sample_rate = None, audio_in_enabled = True, audio_in_filter = False,
      audio_out_10ms_chunks = 4, vad_enabled = True, vad_analyzer = True,
      vad_audio_passthrough = True, end_of_turn_analyzer = True\<rparr>"

definition example_transport :: BaseInputTransport where
  "example_transport = BaseInputTransport_init example_params True"


text \<open>An audio frame with the answers of the analyzers, for concrete runs.\<close>

definition example_input :: audio_input where
  "example_input =
     \<lparr>in_audio = [1, 2], filter_answer = [1, 2], vad_answer = SPEAKING,
      eot_answer = (\<lambda>is_speech. if is_speech then INCOMPLETE else COMPLETE)\<rparr>"

text \<open>
  The audio of the frame after the optional filter, and the tracked VAD state after the
  optional VAD step: the two values one turn of the loop hands to the end-of-turn step.
\<close>

definition filtered_audio :: "BaseInputTransport \<Rightarrow> audio_input \<Rightarrow> audio" where
  "filtered_audio t inp =
     (if audio_in_filter (params t) then filter_answer inp else in_audio inp)"

definition tracked_vad ::
  "BaseInputTransport \<Rightarrow> VADState \<times> EndOfTurnState \<Rightarrow> audio_input \<Rightarrow> VADState" where
  "tracked_vad t st inp =
     (if vad_enabled (params t)
      then fst (handle_vad t (filtered_audio t inp) (vad_answer inp) (fst st))
      else fst st)"

section \<open>AWSTranscribeSTTService (services/aws/stt.py)\<close>

text \<open>
  The settings dictionary built by the constructor, one field per key. The constructor
  has no branch that raises: it returns the settings, and whether it logged the warning
  about the sample rate.
\<close>

record AWSSettings =
  settings_sample_rate :: int
  settings_language :: string
  settings_media_encoding :: string
  settings_number_of_channels :: int
  settings_show_speaker_label :: bool
  settings_enable_channel_identification :: bool

definition AWSTranscribeSTTService_init :: "int \<Rightarrow> string \<Rightarrow> AWSSettings \<times> bool" where
  "AWSTranscribeSTTService_init sample_rate language =
     (let settings = \<lparr>settings_sample_rate = sample_rate,
                       settings_language = language,
                       settings_media_encoding = ''linear16'',
                       settings_number_of_channels = 1,
                       settings_show_speaker_label = False,
                       settings_enable_channel_identification = False\<rparr>
      in if sample_rate \<notin> set [8000, 16000]
         then (settings\<lparr>settings_sample_rate := 16000\<rparr>, True)
         else (settings, False))"

text \<open>
  What one call of \<open>_connect\<close> looks like from \<open>start\<close>: it raises, or it returns with
  the socket in state \<open>OPEN\<close>, or it returns with no open socket. The network decides,
  so the outcome of the k-th call is given by an environment \<open>env k\<close>.
\<close>

datatype connect_outcome = ConnectRaises | ConnectReturnsOpen | ConnectReturnsNotOpen

datatype start_result = StartReturned | StartRuntimeError

definition max_retries :: nat where
  "max_retries = 3"

text \<open>
  The loop of \<open>start\<close>. \<open>attempts\<close> counts the calls of \<open>_connect\<close> made so far,
  \<open>retry_count\<close> is the variable of the source, which only the \<open>except\<close> branch
  increments. The loop can go on for ever, so it runs on fuel, one unit per turn:
  \<open>None\<close> is a loop that has not ended within the fuel. A result carries the number of
  calls of \<open>_connect\<close> made.
\<close>

fun aws_start_loop ::
  "nat \<Rightarrow> (nat \<Rightarrow> connect_outcome) \<Rightarrow> nat \<Rightarrow> nat \<Rightarrow> (start_result \<times> nat) option" where
  "aws_start_loop 0 env attempts retry_count = None"
| "aws_start_loop (Suc fuel) env attempts retry_count =
     (if retry_count < max_retries then
        (case env attempts of
           ConnectReturnsOpen \<Rightarrow> Some (StartReturned, Suc attempts)
         | ConnectReturnsNotOpen \<Rightarrow> aws_start_loop fuel env (Suc attempts) retry_count
         | ConnectRaises \<Rightarrow> aws_start_loop fuel env (Suc attempts) (Suc retry_count))
      else Some (StartRuntimeError, attempts))"

definition aws_start :: "nat \<Rightarrow> (nat \<Rightarrow> connect_outcome) \<Rightarrow> (start_result \<times> nat) option" where
  "aws_start fuel env = aws_start_loop fuel env 0 0"

text \<open>The number of calls of \<open>_connect\<close> made within the given number of turns.\<close>

fun aws_start_attempts :: "nat \<Rightarrow> (nat \<Rightarrow> connect_outcome) \<Rightarrow> nat \<Rightarrow> nat \<Rightarrow> nat" where
  "aws_start_attempts 0 env attempts retry_count = attempts"
| "aws_start_attempts (Suc fuel) env attempts retry_count =
     (if retry_count < max_retries then
        (case env attempts of
           ConnectReturnsOpen \<Rightarrow> Suc attempts
         | ConnectReturnsNotOpen \<Rightarrow> aws_start_attempts fuel env (Suc attempts) retry_count
         | ConnectRaises \<Rightarrow> aws_start_attempts fuel env (Suc attempts) (Suc retry_count))
      else attempts)"

section \<open>Results for the OutputGate\<close>

text \<open>
  C3. In every gate state, a frame that is a System frame or a
  FunctionCallInProgressFrame/FunctionCallResultFrame is forwarded at once, alone and in
  its own direction, and is not appended to the buffer: the buffer afterwards is the
  buffer before, or empty (a StartFrame and a StartInterruptionFrame clear it).
\<close>

theorem gate_passthrough_never_buffered:
  assumes "sysf frame \<or> is_FunctionCallFrame frame"
  shows "snd (gate_process_frame sysf g frame direction) = [(frame, direction)]
       \<and> (frames_buffer (fst (gate_process_frame sysf g frame direction)) = frames_buffer g
          \<or> frames_buffer (fst (gate_process_frame sysf g frame direction)) = [])"
  using assms
  by (auto simp: gate_process_frame_def Let_def gate_start_def gate_stop_def close_gate_def)

theorem gate_passthrough_never_buffered_witness:
  "(spec_SystemFrame CancelFrame \<or> is_FunctionCallFrame CancelFrame)
   \<and> snd (gate_process_frame spec_SystemFrame
        \<lparr>gate_open = False, frames_buffer = [(OtherFrame 1, DOWNSTREAM)], gate_task = True\<rparr>
        CancelFrame DOWNSTREAM) = [(CancelFrame, DOWNSTREAM)]
   \<and> frames_buffer (fst (gate_process_frame spec_SystemFrame
        \<lparr>gate_open = False, frames_buffer = [(OtherFrame 1, DOWNSTREAM)], gate_task = True\<rparr>
        CancelFrame DOWNSTREAM)) = [(OtherFrame 1, DOWNSTREAM)]"
  using gate_passthrough_never_buffered [of spec_SystemFrame CancelFrame
      "\<lparr>gate_open = False, frames_buffer = [(OtherFrame 1, DOWNSTREAM)], gate_task = True\<rparr>"
      DOWNSTREAM]
  by (simp add: gate_process_frame_def Let_def gate_stop_def)

lemma gate_closed_appends:
  assumes "\<not> gate_open g" and "\<not> sysf f" and "\<not> is_FunctionCallFrame f"
  shows "gate_process_frame sysf g f DOWNSTREAM
           = (g\<lparr>frames_buffer := frames_buffer g @ [(f, DOWNSTREAM)]\<rparr>, [])"
  using assms by (simp add: gate_process_frame_def)

lemma gate_closed_appends_all:
  assumes "\<not> gate_open g" and "\<forall>f\<in>set fs. \<not> sysf f \<and> \<not> is_FunctionCallFrame f"
  shows "gate_process_frames sysf g fs DOWNSTREAM
           = (g\<lparr>frames_buffer := frames_buffer g @ map (\<lambda>f. (f, DOWNSTREAM)) fs\<rparr>, [])"
  using assms
proof (induction fs arbitrary: g)
  case Nil
  then show ?case by simp
next
  case (Cons f fs)
  let ?g1 = "g\<lparr>frames_buffer := frames_buffer g @ [(f, DOWNSTREAM)]\<rparr>"
  have step: "gate_process_frame sysf g f DOWNSTREAM = (?g1, [])"
    using Cons.prems by (simp add: gate_closed_appends)
  have closed: "\<not> gate_open ?g1"
    using Cons.prems by simp
  have rest: "gate_process_frames sysf ?g1 fs DOWNSTREAM
                = (?g1\<lparr>frames_buffer := frames_buffer ?g1 @ map (\<lambda>f. (f, DOWNSTREAM)) fs\<rparr>, [])"
    using Cons.IH [OF closed] Cons.prems by simp
  show ?case
    by (simp add: step rest)
qed

text \<open>
  C6. While the gate is Closed, frames that are neither System frames nor function-call
  frames and travel downstream are appended to the buffer and none is forwarded; when
  the notifier then wakes the gate task, exactly the buffered frames are pushed, oldest
  first, the gate is Open and the buffer is empty.
\<close>

theorem gate_buffers_then_flushes_in_order:
  assumes "\<not> gate_open g" and "gate_task g"
    and "\<forall>f\<in>set fs. \<not> sysf f \<and> \<not> is_FunctionCallFrame f"
  shows "gate_process_frames sysf g fs DOWNSTREAM
           = (g\<lparr>frames_buffer := frames_buffer g @ map (\<lambda>f. (f, DOWNSTREAM)) fs\<rparr>, [])
       \<and> notifier_fire (fst (gate_process_frames sysf g fs DOWNSTREAM))
           = (g\<lparr>gate_open := True, frames_buffer := []\<rparr>,
              frames_buffer g @ map (\<lambda>f. (f, DOWNSTREAM)) fs)"
  using assms
  by (simp add: gate_closed_appends_all notifier_fire_def gate_task_wake_def open_gate_def)

theorem gate_buffers_then_flushes_in_order_witness:
  "\<not> gate_open \<lparr>gate_open = False, frames_buffer = [], gate_task = True\<rparr>
   \<and> gate_task \<lparr>gate_open = False, frames_buffer = [], gate_task = True\<rparr>
   \<and> \<not> spec_SystemFrame (OtherFrame 1) \<and> \<not> is_FunctionCallFrame (OtherFrame 1)
   \<and> \<not> spec_SystemFrame (OtherFrame 2) \<and> \<not> is_FunctionCallFrame (OtherFrame 2)
   \<and> \<not> spec_SystemFrame (OtherFrame 3) \<and> \<not> is_FunctionCallFrame (OtherFrame 3)
   \<and> gate_process_frames spec_SystemFrame
        \<lparr>gate_open = False, frames_buffer = [], gate_task = True\<rparr>
        [OtherFrame 1, OtherFrame 2, OtherFrame 3] DOWNSTREAM
       = (\<lparr>gate_open = False,
            frames_buffer = [(OtherFrame 1, DOWNSTREAM), (OtherFrame 2, DOWNSTREAM),
                             (OtherFrame 3, DOWNSTREAM)],
            gate_task = True\<rparr>, [])
   \<and> notifier_fire (fst (gate_process_frames spec_SystemFrame
        \<lparr>gate_open = False, frames_buffer = [], gate_task = True\<rparr>
        [OtherFrame 1, OtherFrame 2, OtherFrame 3] DOWNSTREAM))
       = (\<lparr>gate_open = True, frames_buffer = [], gate_task = True\<rparr>,
          [(OtherFrame 1, DOWNSTREAM), (OtherFrame 2, DOWNSTREAM), (OtherFrame 3, DOWNSTREAM)])"
  using gate_buffers_then_flushes_in_order [of
      "\<lparr>gate_open = False, frames_buffer = [], gate_task = True\<rparr>"
      "[OtherFrame 1, OtherFrame 2, OtherFrame 3]" spec_SystemFrame]
  by (simp add: gate_process_frame_def notifier_fire_def gate_task_wake_def open_gate_def)

text \<open>
  C1, as the code has it. A StartInterruptionFrame empties the buffer and closes the
  gate in the same call, whatever the gate held, and is itself forwarded. A notifier
  signal after it pushes no frame, and it opens the gate: the gate task calls
  \<open>open_gate\<close> on every wake.
\<close>

theorem gate_interruption_clears_then_notifier_opens:
  assumes "sysf StartInterruptionFrame" and "gate_task g"
  shows "frames_buffer (fst (gate_process_frame sysf g StartInterruptionFrame d)) = []
       \<and> \<not> gate_open (fst (gate_process_frame sysf g StartInterruptionFrame d))
       \<and> snd (gate_process_frame sysf g StartInterruptionFrame d)
           = [(StartInterruptionFrame, d)]
       \<and> snd (notifier_fire (fst (gate_process_frame sysf g StartInterruptionFrame d))) = []
       \<and> gate_open
           (fst (notifier_fire (fst (gate_process_frame sysf g StartInterruptionFrame d))))
       \<and> frames_buffer
           (fst (notifier_fire (fst (gate_process_frame sysf g StartInterruptionFrame d)))) = []"
  using assms
  by (simp add: gate_process_frame_def Let_def close_gate_def notifier_fire_def
      gate_task_wake_def open_gate_def)

theorem gate_interruption_clears_then_notifier_opens_witness:
  "spec_SystemFrame StartInterruptionFrame
   \<and> gate_task \<lparr>gate_open = False, frames_buffer = [(OtherFrame 1, DOWNSTREAM)], gate_task = True\<rparr>
   \<and> frames_buffer (fst (gate_process_frame spec_SystemFrame
        \<lparr>gate_open = False, frames_buffer = [(OtherFrame 1, DOWNSTREAM)], gate_task = True\<rparr>
        StartInterruptionFrame DOWNSTREAM)) = []
   \<and> snd (notifier_fire (fst (gate_process_frame spec_SystemFrame
        \<lparr>gate_open = False, frames_buffer = [(OtherFrame 1, DOWNSTREAM)], gate_task = True\<rparr>
        StartInterruptionFrame DOWNSTREAM))) = []
   \<and> gate_open (fst (notifier_fire (fst (gate_process_frame spec_SystemFrame
        \<lparr>gate_open = False, frames_buffer = [(OtherFrame 1, DOWNSTREAM)], gate_task = True\<rparr>
        StartInterruptionFrame DOWNSTREAM))))"
  using gate_interruption_clears_then_notifier_opens [of spec_SystemFrame
      "\<lparr>gate_open = False, frames_buffer = [(OtherFrame 1, DOWNSTREAM)], gate_task = True\<rparr>"
      DOWNSTREAM]
  by simp

text \<open>
  The scenario of C1 on the code: a started, Closed gate receives three data frames,
  then a StartInterruptionFrame, then the notifier fires. Nothing is flushed, yet the
  gate does not remain Closed.
\<close>

theorem gate_remains_closed_counterexample:
  "\<not> (snd (notifier_fire (fst (gate_process_frame spec_SystemFrame
            (fst (gate_process_frames spec_SystemFrame
                   \<lparr>gate_open = False, frames_buffer = [], gate_task = True\<rparr>
                   [OtherFrame 1, OtherFrame 2, OtherFrame 3] DOWNSTREAM))
            StartInterruptionFrame DOWNSTREAM))) = []
      \<and> \<not> gate_open (fst (notifier_fire (fst (gate_process_frame spec_SystemFrame
            (fst (gate_process_frames spec_SystemFrame
                   \<lparr>gate_open = False, frames_buffer = [], gate_task = True\<rparr>
                   [OtherFrame 1, OtherFrame 2, OtherFrame 3] DOWNSTREAM))
            StartInterruptionFrame DOWNSTREAM)))))"
  by (simp add: gate_process_frame_def Let_def close_gate_def notifier_fire_def
      gate_task_wake_def open_gate_def)

section \<open>Results for the audio input loop\<close>

lemma pushed_frames_append: "pushed_frames (xs @ ys) = pushed_frames xs @ pushed_frames ys"
  by (induction xs rule: pushed_frames.induct) simp_all

lemma speaking_frames_append: "speaking_frames (xs @ ys) = speaking_frames xs @ speaking_frames ys"
  by (simp add: speaking_frames_def pushed_frames_append)

lemma handle_vad_step:
  "handle_vad t a answer vs =
     (let new = fst (vad_analyze t a answer); e0 = snd (vad_analyze t a answer)
      in if new \<noteq> vs \<and> new = SPEAKING
         then (new, e0 @ handle_user_interruption t (UserStartedSpeakingFrame False))
         else if new \<noteq> vs \<and> new = QUIET
         then (new, e0 @ handle_user_interruption t (UserStoppedSpeakingFrame False))
         else (vs, e0))"
  by (cases "fst (vad_analyze t a answer)")
     (auto simp: handle_vad_def Let_def split: prod.splits)

lemma speaking_frames_vad_analyze: "speaking_frames (snd (vad_analyze t a answer)) = []"
  by (simp add: vad_analyze_def speaking_frames_def)

lemma speaking_frames_started:
  "speaking_frames (handle_user_interruption t (UserStartedSpeakingFrame e))
     = [(UserStartedSpeakingFrame e, DOWNSTREAM)]"
  by (simp add: speaking_frames_def)

lemma speaking_frames_stopped:
  "speaking_frames (handle_user_interruption t (UserStoppedSpeakingFrame e))
     = [(UserStoppedSpeakingFrame e, DOWNSTREAM)]"
  by (simp add: speaking_frames_def)

lemma handle_vad_speaking_frames:
  "speaking_frames (snd (handle_vad t a answer vs)) =
     (if fst (vad_analyze t a answer) \<noteq> vs \<and> fst (vad_analyze t a answer) = SPEAKING
      then [(UserStartedSpeakingFrame False, DOWNSTREAM)]
      else if fst (vad_analyze t a answer) \<noteq> vs \<and> fst (vad_analyze t a answer) = QUIET
      then [(UserStoppedSpeakingFrame False, DOWNSTREAM)]
      else [])"
  by (simp del: handle_user_interruption.simps
      add: handle_vad_step Let_def speaking_frames_append speaking_frames_vad_analyze
      speaking_frames_started speaking_frames_stopped)

lemma handle_vad_tracked:
  "fst (handle_vad t a answer vs) =
     (if fst (vad_analyze t a answer) = SPEAKING \<or> fst (vad_analyze t a answer) = QUIET
      then fst (vad_analyze t a answer) else vs)"
  by (auto simp add: handle_vad_step Let_def)

lemma audio_task_iteration_eq:
  "audio_task_iteration t st inp =
     (let a = filtered_audio t inp;
          v = tracked_vad t st inp;
          eot = (if end_of_turn_analyzer (params t)
                 then handle_end_of_turn t a (eot_answer inp) (snd st)
                        (v = SPEAKING \<or> v = STARTING)
                 else (snd st, []))
      in ((v, fst eot),
          (if audio_in_filter (params t) then [FilterAudio (in_audio inp)] else [])
          @ (if vad_enabled (params t)
             then snd (handle_vad t a (vad_answer inp) (fst st)) else [])
          @ snd eot
          @ (if (if vad_enabled (params t) then vad_audio_passthrough (params t) else True)
             then [PushFrame (InputAudioRawFrame a) DOWNSTREAM] else [])))"
  by (simp add: audio_task_iteration_def filtered_audio_def tracked_vad_def Let_def split_beta)

lemma speaking_frames_handle_end_of_turn:
  "speaking_frames (snd (handle_end_of_turn t a answer st is_speech)) = []"
  by (simp add: handle_end_of_turn_def end_of_turn_analyze_def speaking_frames_def)

lemma iteration_speaking_frames:
  "speaking_frames (snd (audio_task_iteration t st inp)) =
     (if vad_enabled (params t)
      then speaking_frames (snd (handle_vad t (filtered_audio t inp) (vad_answer inp) (fst st)))
      else [])"
  by (simp add: audio_task_iteration_eq Let_def speaking_frames_append
      speaking_frames_handle_end_of_turn)
     (simp add: speaking_frames_def)

lemma iteration_tracked_vad:
  "fst (fst (audio_task_iteration t st inp)) = tracked_vad t st inp"
  by (simp add: audio_task_iteration_eq Let_def)

lemma audio_task_run_append:
  "audio_task_run t st (xs @ ys) =
     (fst (audio_task_run t (fst (audio_task_run t st xs)) ys),
      snd (audio_task_run t st xs) @ snd (audio_task_run t (fst (audio_task_run t st xs)) ys))"
  by (induction xs arbitrary: st) (simp_all add: split_beta Let_def)

lemma audio_task_run_quiet:
  assumes "vad_enabled (params t)" and "vad_analyzer (params t)"
    and "\<forall>inp\<in>set inps. vad_answer inp \<noteq> SPEAKING"
  shows "fst (fst (audio_task_run t (QUIET, e) inps)) = QUIET
       \<and> speaking_frames (snd (audio_task_run t (QUIET, e) inps)) = []"
  using assms(3)
proof (induction inps arbitrary: e)
  case Nil
  then show ?case by (simp add: speaking_frames_def)
next
  case (Cons inp inps)
  have an: "\<And>a y. fst (vad_analyze t a y) = y"
    using assms(2) by (simp add: vad_analyze_def)
  have x: "vad_answer inp \<noteq> SPEAKING" using Cons.prems by simp
  have st: "fst (fst (audio_task_iteration t (QUIET, e) inp)) = QUIET"
    using x assms(1) by (simp add: iteration_tracked_vad tracked_vad_def handle_vad_tracked an)
  have fr: "speaking_frames (snd (audio_task_iteration t (QUIET, e) inp)) = []"
    using x assms(1) by (simp add: iteration_speaking_frames handle_vad_speaking_frames an)
  obtain e' where st': "fst (audio_task_iteration t (QUIET, e) inp) = (QUIET, e')"
    using st by (cases "fst (audio_task_iteration t (QUIET, e) inp)") simp
  have rest: "fst (fst (audio_task_run t (QUIET, e') inps)) = QUIET
       \<and> speaking_frames (snd (audio_task_run t (QUIET, e') inps)) = []"
    using Cons.IH [of e'] Cons.prems by simp
  show ?case
    using rest fr st' by (simp add: split_beta Let_def speaking_frames_append)
qed

text \<open>
  C2. One call of \<open>_handle_vad\<close>, and so one turn of the audio input loop with VAD
  enabled, pushes a speaking-transition frame exactly when the analyzed state differs
  from the tracked state and is SPEAKING (a UserStartedSpeakingFrame) or QUIET (a
  UserStoppedSpeakingFrame); on STARTING and STOPPING nothing is pushed and the tracked
  state stays. With VAD disabled the loop pushes no such frame and keeps the tracked
  state. The loop hands the tracked state from each turn to the next. Hence, started on
  QUIET, the loop pushes over any run of answers other than SPEAKING followed by
  SPEAKING exactly one UserStartedSpeakingFrame and no other speaking-transition frame;
  QUIET, STARTING, SPEAKING is such a run.
\<close>

theorem vad_transition_frames:
  "speaking_frames (snd (handle_vad t a answer vs)) =
     (if fst (vad_analyze t a answer) \<noteq> vs \<and> fst (vad_analyze t a answer) = SPEAKING
      then [(UserStartedSpeakingFrame False, DOWNSTREAM)]
      else if fst (vad_analyze t a answer) \<noteq> vs \<and> fst (vad_analyze t a answer) = QUIET
      then [(UserStoppedSpeakingFrame False, DOWNSTREAM)]
      else [])
   \<and> fst (handle_vad t a answer vs) =
     (if fst (vad_analyze t a answer) = SPEAKING \<or> fst (vad_analyze t a answer) = QUIET
      then fst (vad_analyze t a answer) else vs)
   \<and> speaking_frames (snd (audio_task_iteration t st inp)) =
     (if vad_enabled (params t)
         \<and> fst (vad_analyze t (filtered_audio t inp) (vad_answer inp)) \<noteq> fst st
         \<and> fst (vad_analyze t (filtered_audio t inp) (vad_answer inp)) = SPEAKING
      then [(UserStartedSpeakingFrame False, DOWNSTREAM)]
      else if vad_enabled (params t)
         \<and> fst (vad_analyze t (filtered_audio t inp) (vad_answer inp)) \<noteq> fst st
         \<and> fst (vad_analyze t (filtered_audio t inp) (vad_answer inp)) = QUIET
      then [(UserStoppedSpeakingFrame False, DOWNSTREAM)]
      else [])
   \<and> fst (fst (audio_task_iteration t st inp)) =
     (if vad_enabled (params t)
         \<and> (fst (vad_analyze t (filtered_audio t inp) (vad_answer inp)) = SPEAKING
            \<or> fst (vad_analyze t (filtered_audio t inp) (vad_answer inp)) = QUIET)
      then fst (vad_analyze t (filtered_audio t inp) (vad_answer inp)) else fst st)
   \<and> speaking_frames (snd (audio_task_run t st (inps @ [inp]))) =
       speaking_frames (snd (audio_task_run t st inps))
       @ speaking_frames (snd (audio_task_iteration t (fst (audio_task_run t st inps)) inp))
   \<and> fst (audio_task_run t st (inps @ [inp])) =
       fst (audio_task_iteration t (fst (audio_task_run t st inps)) inp)
   \<and> (vad_enabled (params t) \<longrightarrow> vad_analyzer (params t) \<longrightarrow>
        (\<forall>i\<in>set inps. vad_answer i \<noteq> SPEAKING) \<longrightarrow> vad_answer inp = SPEAKING \<longrightarrow>
        speaking_frames (snd (audio_task_handler t (inps @ [inp])))
          = [(UserStartedSpeakingFrame False, DOWNSTREAM)]
        \<and> fst (fst (audio_task_handler t (inps @ [inp]))) = SPEAKING)"
proof (intro conjI impI)
  show "speaking_frames (snd (handle_vad t a answer vs)) =
     (if fst (vad_analyze t a answer) \<noteq> vs \<and> fst (vad_analyze t a answer) = SPEAKING
      then [(UserStartedSpeakingFrame False, DOWNSTREAM)]
      else if fst (vad_analyze t a answer) \<noteq> vs \<and> fst (vad_analyze t a answer) = QUIET
      then [(UserStoppedSpeakingFrame False, DOWNSTREAM)]
      else [])"
    by (rule handle_vad_speaking_frames)
  show "fst (handle_vad t a answer vs) =
     (if fst (vad_analyze t a answer) = SPEAKING \<or> fst (vad_analyze t a answer) = QUIET
      then fst (vad_analyze t a answer) else vs)"
    by (rule handle_vad_tracked)
  show "speaking_frames (snd (audio_task_iteration t st inp)) =
     (if vad_enabled (params t)
         \<and> fst (vad_analyze t (filtered_audio t inp) (vad_answer inp)) \<noteq> fst st
         \<and> fst (vad_analyze t (filtered_audio t inp) (vad_answer inp)) = SPEAKING
      then [(UserStartedSpeakingFrame False, DOWNSTREAM)]
      else if vad_enabled (params t)
         \<and> fst (vad_analyze t (filtered_audio t inp) (vad_answer inp)) \<noteq> fst st
         \<and> fst (vad_analyze t (filtered_audio t inp) (vad_answer inp)) = QUIET
      then [(UserStoppedSpeakingFrame False, DOWNSTREAM)]
      else [])"
    by (simp add: iteration_speaking_frames handle_vad_speaking_frames)
  show "fst (fst (audio_task_iteration t st inp)) =
     (if vad_enabled (params t)
         \<and> (fst (vad_analyze t (filtered_audio t inp) (vad_answer inp)) = SPEAKING
            \<or> fst (vad_analyze t (filtered_audio t inp) (vad_answer inp)) = QUIET)
      then fst (vad_analyze t (filtered_audio t inp) (vad_answer inp)) else fst st)"
    by (simp add: iteration_tracked_vad tracked_vad_def handle_vad_tracked)
  show "speaking_frames (snd (audio_task_run t st (inps @ [inp]))) =
       speaking_frames (snd (audio_task_run t st inps))
       @ speaking_frames (snd (audio_task_iteration t (fst (audio_task_run t st inps)) inp))"
    by (simp add: audio_task_run_append speaking_frames_append split_beta Let_def)
  show "fst (audio_task_run t st (inps @ [inp])) =
       fst (audio_task_iteration t (fst (audio_task_run t st inps)) inp)"
    by (simp add: audio_task_run_append split_beta Let_def)
next
  assume en: "vad_enabled (params t)" and an: "vad_analyzer (params t)"
    and xs: "\<forall>i\<in>set inps. vad_answer i \<noteq> SPEAKING" and sp: "vad_answer inp = SPEAKING"
  have q: "fst (fst (audio_task_run t (QUIET, INCOMPLETE) inps)) = QUIET"
    and n: "speaking_frames (snd (audio_task_run t (QUIET, INCOMPLETE) inps)) = []"
    using audio_task_run_quiet [OF en an xs] by simp_all
  have va: "\<And>a y. fst (vad_analyze t a y) = y"
    using an by (simp add: vad_analyze_def)
  show "speaking_frames (snd (audio_task_handler t (inps @ [inp])))
          = [(UserStartedSpeakingFrame False, DOWNSTREAM)]"
    using en sp
    by (simp add: audio_task_handler_def audio_task_run_append q n speaking_frames_append
        split_beta Let_def iteration_speaking_frames handle_vad_speaking_frames va)
  show "fst (fst (audio_task_handler t (inps @ [inp]))) = SPEAKING"
    using en sp
    by (simp add: audio_task_handler_def audio_task_run_append split_beta Let_def
        iteration_tracked_vad tracked_vad_def handle_vad_tracked va)
qed

theorem vad_transition_frames_witness:
  "vad_enabled (params example_transport)
   \<and> vad_analyzer (params example_transport)
   \<and> vad_answer (example_input\<lparr>vad_answer := QUIET\<rparr>) \<noteq> SPEAKING
   \<and> vad_answer (example_input\<lparr>vad_answer := STARTING\<rparr>) \<noteq> SPEAKING
   \<and> vad_answer example_input = SPEAKING
   \<and> speaking_frames (snd (audio_task_handler example_transport
        [example_input\<lparr>vad_answer := QUIET\<rparr>, example_input\<lparr>vad_answer := STARTING\<rparr>,
         example_input]))
       = [(UserStartedSpeakingFrame False, DOWNSTREAM)]
   \<and> speaking_frames (snd (audio_task_iteration example_transport (QUIET, INCOMPLETE)
        (example_input\<lparr>vad_answer := STARTING\<rparr>))) = []"
  using vad_transition_frames [of example_transport "[]" STARTING QUIET "(QUIET, INCOMPLETE)"
      example_input
      "[example_input\<lparr>vad_answer := QUIET\<rparr>, example_input\<lparr>vad_answer := STARTING\<rparr>]"]
    vad_transition_frames [of example_transport "[]" STARTING QUIET "(QUIET, INCOMPLETE)"
      "example_input\<lparr>vad_answer := STARTING\<rparr>" "[]"]
  by (simp add: example_transport_def example_params_def BaseInputTransport_init_def
      example_input_def vad_analyze_def filtered_audio_def)

section \<open>Results for the input transport\<close>

text \<open>
  C4. With interruptions allowed: on the classifier edge from QUIET to SPEAKING, and on
  an EmulateUserStartedSpeakingFrame, the transport pushes a UserStartedSpeakingFrame
  and then a StartInterruptionFrame; on the edge from SPEAKING to QUIET, and on an
  EmulateUserStoppedSpeakingFrame, it pushes a UserStoppedSpeakingFrame and then a
  StopInterruptionFrame. All four frames go downstream.
\<close>

theorem interruption_frames_when_allowed:
  assumes "interruptions_allowed t"
  shows "(vad_analyzer (params t) \<longrightarrow>
            handle_vad t a SPEAKING QUIET
              = (SPEAKING, [RunInExecutor (VadAnalyzeAudio a),
                            PushFrame (UserStartedSpeakingFrame False) DOWNSTREAM,
                            StartInterruption,
                            PushFrame StartInterruptionFrame DOWNSTREAM]))
       \<and> transport_process_frame sysf t EmulateUserStartedSpeakingFrame d
           = (t, [SuperProcessFrame EmulateUserStartedSpeakingFrame d,
                  PushFrame (UserStartedSpeakingFrame True) DOWNSTREAM,
                  StartInterruption,
                  PushFrame StartInterruptionFrame DOWNSTREAM])
       \<and> (vad_analyzer (params t) \<longrightarrow>
            handle_vad t a QUIET SPEAKING
              = (QUIET, [RunInExecutor (VadAnalyzeAudio a),
                         PushFrame (UserStoppedSpeakingFrame False) DOWNSTREAM,
                         StopInterruption,
                         PushFrame StopInterruptionFrame DOWNSTREAM]))
       \<and> transport_process_frame sysf t EmulateUserStoppedSpeakingFrame d
           = (t, [SuperProcessFrame EmulateUserStoppedSpeakingFrame d,
                  PushFrame (UserStoppedSpeakingFrame True) DOWNSTREAM,
                  StopInterruption,
                  PushFrame StopInterruptionFrame DOWNSTREAM])"
  using assms
  by (simp add: handle_vad_def vad_analyze_def transport_process_frame_def)

theorem interruption_frames_when_allowed_witness:
  "interruptions_allowed example_transport
   \<and> vad_analyzer (params example_transport)
   \<and> pushed_frames (snd (handle_vad example_transport [] SPEAKING QUIET))
       = [(UserStartedSpeakingFrame False, DOWNSTREAM), (StartInterruptionFrame, DOWNSTREAM)]
   \<and> pushed_frames (snd (handle_vad example_transport [] QUIET SPEAKING))
       = [(UserStoppedSpeakingFrame False, DOWNSTREAM), (StopInterruptionFrame, DOWNSTREAM)]"
  using interruption_frames_when_allowed [of example_transport "[]" spec_SystemFrame DOWNSTREAM]
  by (simp add: example_transport_def example_params_def BaseInputTransport_init_def)

lemma no_push_start: "pushed_frames (snd (transport_start t r)) = []"
  by (simp add: transport_start_def Let_def)

lemma no_push_stop: "pushed_frames (snd (transport_stop t)) = []"
  by (simp add: transport_stop_def Let_def split_beta)

text \<open>
  C5. \<open>process_frame\<close> pushes a StartFrame, in the direction it travels, before any
  effect of \<open>start\<close>, and an EndFrame before any effect of \<open>stop\<close>; \<open>start\<close> and \<open>stop\<close>
  push no frame themselves. Under a class hierarchy in which EndFrame is a System
  frame the EndFrame is pushed and \<open>stop\<close> is not run at all.
\<close>

theorem lifecycle_frame_pushed_before_routine:
  "snd (transport_process_frame sysf t (StartFrame r) d)
     = SuperProcessFrame (StartFrame r) d # PushFrame (StartFrame r) d
         # snd (transport_start t r)
   \<and> fst (transport_process_frame sysf t (StartFrame r) d) = fst (transport_start t r)
   \<and> pushed_frames (snd (transport_start t r)) = []
   \<and> snd (transport_process_frame sysf t EndFrame d)
     = (if sysf EndFrame then [SuperProcessFrame EndFrame d, PushFrame EndFrame d]
        else SuperProcessFrame EndFrame d # PushFrame EndFrame d # snd (transport_stop t))
   \<and> fst (transport_process_frame sysf t EndFrame d)
     = (if sysf EndFrame then t else fst (transport_stop t))
   \<and> pushed_frames (snd (transport_stop t)) = []"
  by (simp add: transport_process_frame_def split_beta no_push_start no_push_stop)

theorem lifecycle_frame_pushed_before_routine_witness:
  "snd (transport_process_frame spec_SystemFrame
          (example_transport\<lparr>audio_task := True\<rparr>) EndFrame DOWNSTREAM)
     = [SuperProcessFrame EndFrame DOWNSTREAM, PushFrame EndFrame DOWNSTREAM, CancelTask]
   \<and> snd (transport_process_frame spec_SystemFrame example_transport (StartFrame 16000) DOWNSTREAM)
     = [SuperProcessFrame (StartFrame 16000) DOWNSTREAM,
        PushFrame (StartFrame 16000) DOWNSTREAM,
        VadSetSampleRate 16000, EndOfTurnSetSampleRate 16000, EndOfTurnSetChunkSizeMs 40,
        CreateQueue, CreateTask]"
  using lifecycle_frame_pushed_before_routine
          [of spec_SystemFrame "example_transport\<lparr>audio_task := True\<rparr>" 16000 DOWNSTREAM]
        lifecycle_frame_pushed_before_routine
          [of spec_SystemFrame example_transport 16000 DOWNSTREAM]
  by (simp add: example_transport_def example_params_def BaseInputTransport_init_def
      transport_stop_def transport_start_def start_sample_rate_def Let_def)

lemma transport_start_eq:
  "transport_start t r =
     ((if \<not> audio_task t \<and> (audio_in_enabled (params t) \<or> vad_enabled (params t))
       then t\<lparr>input_sample_rate := start_sample_rate (params t) r,
               audio_in_queue := Some [], audio_task := True\<rparr>
       else t\<lparr>input_sample_rate := start_sample_rate (params t) r\<rparr>),
      (if vad_enabled (params t) \<and> vad_analyzer (params t)
       then [VadSetSampleRate (start_sample_rate (params t) r)] else [])
      @ (if end_of_turn_analyzer (params t)
         then [EndOfTurnSetSampleRate (start_sample_rate (params t) r),
               EndOfTurnSetChunkSizeMs (audio_out_10ms_chunks (params t) * 10)]
         else [])
      @ (if audio_in_filter (params t)
         then [FilterStart (start_sample_rate (params t) r)] else [])
      @ (if \<not> audio_task t \<and> (audio_in_enabled (params t) \<or> vad_enabled (params t))
         then [CreateQueue, CreateTask] else []))"
  by (simp add: transport_start_def Let_def)

text \<open>
  C7, as the code has it. The first StartFrame sets the sample rate, makes the
  configuration calls and, if no audio task exists and audio input or VAD is enabled,
  creates the queue and the task. A second StartFrame delivered after it makes the same
  configuration calls again, with the sample rate it yields, and creates neither a task
  nor a queue, so both are created at most once; it changes no field but the sample
  rate, and delivered with the same sample rate it leaves the transport as the first
  delivery left it.
\<close>

theorem second_start_frame_creates_nothing:
  "snd (transport_process_frame sysf t (StartFrame r) d)
     = SuperProcessFrame (StartFrame r) d # PushFrame (StartFrame r) d
       # (if vad_enabled (params t) \<and> vad_analyzer (params t)
          then [VadSetSampleRate (start_sample_rate (params t) r)] else [])
       @ (if end_of_turn_analyzer (params t)
          then [EndOfTurnSetSampleRate (start_sample_rate (params t) r),
                EndOfTurnSetChunkSizeMs (audio_out_10ms_chunks (params t) * 10)]
          else [])
       @ (if audio_in_filter (params t)
          then [FilterStart (start_sample_rate (params t) r)] else [])
       @ (if \<not> audio_task t \<and> (audio_in_enabled (params t) \<or> vad_enabled (params t))
          then [CreateQueue, CreateTask] else [])
   \<and> fst (transport_process_frame sysf t (StartFrame r) d)
     = (if \<not> audio_task t \<and> (audio_in_enabled (params t) \<or> vad_enabled (params t))
        then t\<lparr>input_sample_rate := start_sample_rate (params t) r,
                audio_in_queue := Some [], audio_task := True\<rparr>
        else t\<lparr>input_sample_rate := start_sample_rate (params t) r\<rparr>)
   \<and> snd (transport_process_frame sysf
          (fst (transport_process_frame sysf t (StartFrame r) d)) (StartFrame r2) d)
     = SuperProcessFrame (StartFrame r2) d # PushFrame (StartFrame r2) d
       # (if vad_enabled (params t) \<and> vad_analyzer (params t)
          then [VadSetSampleRate (start_sample_rate (params t) r2)] else [])
       @ (if end_of_turn_analyzer (params t)
          then [EndOfTurnSetSampleRate (start_sample_rate (params t) r2),
                EndOfTurnSetChunkSizeMs (audio_out_10ms_chunks (params t) * 10)]
          else [])
       @ (if audio_in_filter (params t)
          then [FilterStart (start_sample_rate (params t) r2)] else [])
   \<and> fst (transport_process_frame sysf
          (fst (transport_process_frame sysf t (StartFrame r) d)) (StartFrame r2) d)
     = (fst (transport_process_frame sysf t (StartFrame r) d))
         \<lparr>input_sample_rate := start_sample_rate (params t) r2\<rparr>
   \<and> fst (transport_process_frame sysf
          (fst (transport_process_frame sysf t (StartFrame r) d)) (StartFrame r) d)
     = fst (transport_process_frame sysf t (StartFrame r) d)
   \<and> count_list (snd (transport_process_frame sysf t (StartFrame r) d)
        @ snd (transport_process_frame sysf
            (fst (transport_process_frame sysf t (StartFrame r) d)) (StartFrame r2) d))
        CreateTask \<le> 1
   \<and> count_list (snd (transport_process_frame sysf t (StartFrame r) d)
        @ snd (transport_process_frame sysf
            (fst (transport_process_frame sysf t (StartFrame r) d)) (StartFrame r2) d))
        CreateQueue \<le> 1"
  by (simp add: transport_process_frame_def split_beta transport_start_eq)

theorem second_start_frame_creates_nothing_witness:
  "snd (transport_process_frame spec_SystemFrame example_transport (StartFrame 16000) DOWNSTREAM)
     = [SuperProcessFrame (StartFrame 16000) DOWNSTREAM,
        PushFrame (StartFrame 16000) DOWNSTREAM,
        VadSetSampleRate 16000, EndOfTurnSetSampleRate 16000, EndOfTurnSetChunkSizeMs 40,
        CreateQueue, CreateTask]
   \<and> snd (transport_process_frame spec_SystemFrame
          (fst (transport_process_frame spec_SystemFrame example_transport
                  (StartFrame 16000) DOWNSTREAM))
          (StartFrame 16000) DOWNSTREAM)
     = [SuperProcessFrame (StartFrame 16000) DOWNSTREAM,
        PushFrame (StartFrame 16000) DOWNSTREAM,
        VadSetSampleRate 16000, EndOfTurnSetSampleRate 16000, EndOfTurnSetChunkSizeMs 40]
   \<and> fst (transport_process_frame spec_SystemFrame
          (fst (transport_process_frame spec_SystemFrame example_transport
                  (StartFrame 16000) DOWNSTREAM))
          (StartFrame 16000) DOWNSTREAM)
     = example_transport\<lparr>input_sample_rate := 16000, audio_in_queue := Some [],
                          audio_task := True\<rparr>"
  using second_start_frame_creates_nothing
          [of spec_SystemFrame example_transport 16000 DOWNSTREAM 16000]
  by (simp add: example_transport_def example_params_def BaseInputTransport_init_def
      start_sample_rate_def transport_process_frame_def split_beta transport_start_eq)

text \<open>
  The configuration is not set exactly once: two deliveries of the same StartFrame call
  \<open>vad_analyzer.set_sample_rate\<close> twice.
\<close>

theorem config_set_once_counterexample:
  "count_list
        (snd (transport_process_frame spec_SystemFrame example_transport
                (StartFrame 16000) DOWNSTREAM)
         @ snd (transport_process_frame spec_SystemFrame
                (fst (transport_process_frame spec_SystemFrame example_transport
                        (StartFrame 16000) DOWNSTREAM))
                (StartFrame 16000) DOWNSTREAM))
        (VadSetSampleRate 16000) = 2
   \<and> \<not> (count_list
        (snd (transport_process_frame spec_SystemFrame example_transport
                (StartFrame 16000) DOWNSTREAM)
         @ snd (transport_process_frame spec_SystemFrame
                (fst (transport_process_frame spec_SystemFrame example_transport
                        (StartFrame 16000) DOWNSTREAM))
                (StartFrame 16000) DOWNSTREAM))
        (VadSetSampleRate 16000) = 1)"
  by (simp add: transport_process_frame_def split_beta transport_start_def Let_def
      start_sample_rate_def example_transport_def example_params_def
      BaseInputTransport_init_def)

section \<open>Results for the end-of-turn step\<close>






section \<open>Results for AWSTranscribeSTTService\<close>

lemma aws_start_loop_never_open:
  "aws_start_loop fuel (\<lambda>k. ConnectReturnsNotOpen) attempts 0 = None"
  by (induction fuel arbitrary: attempts) (simp_all add: max_retries_def)

lemma aws_start_attempts_never_open:
  "aws_start_attempts fuel (\<lambda>k. ConnectReturnsNotOpen) attempts 0 = attempts + fuel"
  by (induction fuel arbitrary: attempts) (simp_all add: max_retries_def)

text \<open>
  C9 on the code. When every call of \<open>_connect\<close> returns without raising and without an
  open socket, \<open>retry_count\<close> stays 0: \<open>start\<close> neither returns nor raises within any
  number of turns, and it has called \<open>_connect\<close> once per turn, four times after four
  turns. The bound of three attempts and the RuntimeError are not reached.
\<close>

theorem aws_start_retries_without_bound:
  "aws_start fuel (\<lambda>k. ConnectReturnsNotOpen) = None
   \<and> aws_start_attempts fuel (\<lambda>k. ConnectReturnsNotOpen) 0 0 = fuel
   \<and> aws_start_attempts 4 (\<lambda>k. ConnectReturnsNotOpen) 0 0 = 4"
  by (simp add: aws_start_def aws_start_loop_never_open aws_start_attempts_never_open)

text \<open>
  Where no call of \<open>_connect\<close> returns without an open socket, \<open>start\<close> ends within
  three calls: it returns at the first open socket, and raises RuntimeError exactly
  when the three calls raised.
\<close>

lemma aws_start_bounded_without_not_open:
  assumes "\<forall>k. env k \<noteq> ConnectReturnsNotOpen"
  shows "\<exists>res n. aws_start 4 env = Some (res, n) \<and> n \<le> 3
           \<and> (res = StartRuntimeError
                \<longleftrightarrow> env 0 = ConnectRaises \<and> env (Suc 0) = ConnectRaises
                    \<and> env (Suc (Suc 0)) = ConnectRaises)"
proof -
  have e0: "env 0 \<noteq> ConnectReturnsNotOpen"
    and e1: "env (Suc 0) \<noteq> ConnectReturnsNotOpen"
    and e2: "env (Suc (Suc 0)) \<noteq> ConnectReturnsNotOpen"
    using assms by blast+
  have four: "(4::nat) = Suc (Suc (Suc (Suc 0)))" by simp
  show ?thesis
    unfolding aws_start_def four
    using e0 e1 e2
    by (cases "env 0"; cases "env (Suc 0)"; cases "env (Suc (Suc 0))")
       (simp_all add: max_retries_def)
qed

text \<open>
  C10. For every integer \<open>sample_rate\<close> the constructor yields settings (it has no
  failing branch): 8000 and 16000 are kept, any other value is replaced by 16000, and
  the warning is logged exactly in that case.
\<close>

theorem aws_init_sample_rate:
  "settings_sample_rate (fst (AWSTranscribeSTTService_init sample_rate language))
     = (if sample_rate = 8000 \<or> sample_rate = 16000 then sample_rate else 16000)
   \<and> snd (AWSTranscribeSTTService_init sample_rate language)
     = (sample_rate \<noteq> 8000 \<and> sample_rate \<noteq> 16000)
   \<and> settings_sample_rate (fst (AWSTranscribeSTTService_init sample_rate language))
       \<in> {8000, 16000}"
  by (simp add: AWSTranscribeSTTService_init_def Let_def)

theorem aws_init_sample_rate_witness:
  "settings_sample_rate (fst (AWSTranscribeSTTService_init 44100 ''en'')) = 16000
   \<and> snd (AWSTranscribeSTTService_init 44100 ''en'')
   \<and> settings_sample_rate (fst (AWSTranscribeSTTService_init 8000 ''en'')) = 8000
   \<and> \<not> snd (AWSTranscribeSTTService_init 8000 ''en'')
   \<and> settings_sample_rate (fst (AWSTranscribeSTTService_init (- 5) ''en'')) = 16000"
  using aws_init_sample_rate [of 44100 "''en''"] aws_init_sample_rate [of 8000 "''en''"]
    aws_init_sample_rate [of "- 5" "''en''"]
  by simp

end
